theory Spec2Isabelle
  imports Main
begin

section \<open>Column descriptors of \<^verbatim>\<open>root/utility/tableColumns.js\<close>\<close>

subsection \<open>JavaScript values\<close>

text \<open>
  The module is untyped at run time (the Flow annotations are erased), so rows, cell
  values and the results of the extraction callbacks are JavaScript values. An object is
  the list of its own properties; a property that is not there reads as \<^verbatim>\<open>undefined\<close>.
  Numbers are modelled as integers (row ids, ratings, ordering type ids): \<^verbatim>\<open>NaN\<close>,
  the only other falsy number, has no counterpart here.
\<close>

datatype jsval =
    JUndefined
  | JNull
  | JBool bool
  | JNum int
  | JStr string
  | JObj "(string \<times> jsval) list"

text \<open>\<^verbatim>\<open>ToBoolean\<close>: what \<^verbatim>\<open>v ? a : b\<close> tests.\<close>

fun truthy :: "jsval \<Rightarrow> bool" where
  "truthy JUndefined = False"
| "truthy JNull = False"
| "truthy (JBool b) = b"
| "truthy (JNum n) = (n \<noteq> 0)"
| "truthy (JStr s) = (s \<noteq> [])"
| "truthy (JObj ps) = True"

text \<open>\<^verbatim>\<open>v == null\<close>: the test behind \<^verbatim>\<open>??\<close> and \<^verbatim>\<open>?.\<close>.\<close>

fun nullish :: "jsval \<Rightarrow> bool" where
  "nullish JUndefined = True"
| "nullish JNull = True"
| "nullish v = False"

text \<open>\<^verbatim>\<open>a ?? b\<close>\<close>

definition coalesce :: "jsval \<Rightarrow> jsval \<Rightarrow> jsval" where
  "coalesce a b = (if nullish a then b else a)"

text \<open>
  \<^verbatim>\<open>o[k]\<close> on a value that is not null or undefined: an own property of an object, and
  \<^verbatim>\<open>undefined\<close> otherwise (the fields read by this module, \<^verbatim>\<open>id\<close>, \<^verbatim>\<open>name\<close>,
  \<^verbatim>\<open>typeName\<close>, ..., are not properties of any primitive).
\<close>

fun getProp :: "jsval \<Rightarrow> string \<Rightarrow> jsval" where
  "getProp (JObj ps) k = (case map_of ps k of None \<Rightarrow> JUndefined | Some v \<Rightarrow> v)"
| "getProp v k = JUndefined"

text \<open>\<^verbatim>\<open>o?.k\<close>\<close>

definition optChain :: "jsval \<Rightarrow> string \<Rightarrow> jsval" where
  "optChain v k = (if nullish v then JUndefined else getProp v k)"

subsection \<open>Rendered markup\<close>

text \<open>
  What a \<^verbatim>\<open>Cell\<close> or \<^verbatim>\<open>Header\<close> evaluates to: a JavaScript value used as a React
  node (a string, \<^verbatim>\<open>null\<close>, ...) or one of the elements the module builds. An element
  is kept as built, with its props; the components themselves live in other modules.
\<close>

datatype node =
    Value jsval
  | Input "string option" string "jsval option"
  | SortableTableHeader string string string
  | DescriptiveLink jsval
  | EntityLink string jsval string
  | RatingStars jsval
  | Fragment "string option" "node list"

subsection \<open>Column descriptors\<close>

text \<open>
  react-table's \<^verbatim>\<open>ColumnOptions\<close>: the accessor is a field name or a function of the
  row; the cell renderer receives \<^verbatim>\<open>{cell: {value}, row: {original}}\<close>.
\<close>

datatype accessor = Field string | Fn "jsval \<Rightarrow> jsval"

record CellProps =
  cell_value :: jsval
  row_original :: jsval

record ColumnOptions =
  Cell :: "CellProps \<Rightarrow> node"
  Header :: node
  accessor :: accessor
  className :: "string option"
  col_id :: "string option"

text \<open>
  Modelled from the spec: the table-rendering component that consumes the descriptors is
  a third-party library and not part of the source. It resolves an accessor to the
  primitive value of a row (a field name reads that field, a function is applied to the
  row) and hands the cell renderer that value together with the row itself.
\<close>

fun accessorValue :: "accessor \<Rightarrow> jsval \<Rightarrow> jsval" where
  "accessorValue (Field k) row = getProp row k"
| "accessorValue (Fn f) row = f row"

definition cellProps :: "ColumnOptions \<Rightarrow> jsval \<Rightarrow> CellProps" where
  "cellProps col row = \<lparr>cell_value = accessorValue (accessor col) row, row_original = row\<rparr>"

definition renderCell :: "ColumnOptions \<Rightarrow> jsval \<Rightarrow> node" where
  "renderCell col row = Cell col (cellProps col row)"

text \<open>
  Modelled from the spec: the imported collaborators and the global localisation helpers
  are defined outside the source; they are taken as parameters. \<^verbatim>\<open>l\<close>,
  \<^verbatim>\<open>lp_attributes\<close>, \<^verbatim>\<open>l_instrument_descriptions\<close>, \<^verbatim>\<open>formatDate\<close>,
  \<^verbatim>\<open>formatEndDate\<close> and \<^verbatim>\<open>yesNo\<close> return strings, \<^verbatim>\<open>expand2react\<close> and
  \<^verbatim>\<open>N_l\<close> something renderable, and \<^verbatim>\<open>series_ordering_type\<close> is the lookup
  \<^verbatim>\<open>linkedEntities.series_ordering_type[value]\<close>.
\<close>

record env =
  l :: "string \<Rightarrow> string"
  N_l :: "string \<Rightarrow> node"
  lp_attributes :: "jsval \<Rightarrow> string \<Rightarrow> string"
  l_instrument_descriptions :: "jsval \<Rightarrow> string"
  expand2react :: "string \<Rightarrow> node"
  formatDate :: "jsval \<Rightarrow> string"
  formatEndDate :: "jsval \<Rightarrow> string"
  yesNo :: "jsval \<Rightarrow> string"
  series_ordering_type :: "jsval \<Rightarrow> jsval"

text \<open>
  Optional parameters with a default (\<^verbatim>\<open>order?: string = ''\<close>,
  \<^verbatim>\<open>sortable?: boolean = false\<close>): \<open>None\<close> is the omitted argument.
\<close>

definition orDefault :: "'a option \<Rightarrow> 'a \<Rightarrow> 'a" where
  "orDefault a d = (case a of None \<Rightarrow> d | Some v \<Rightarrow> v)"

subsection \<open>The factories\<close>

definition defineCheckboxColumn :: "string \<Rightarrow> ColumnOptions" where
  "defineCheckboxColumn name =
     \<lparr>Cell = (\<lambda>props. Input (Some name) ''checkbox'' (Some (cell_value props))),
      Header = Input None ''checkbox'' None,
      accessor = Field ''id'',
      className = Some ''checkbox-cell'',
      col_id = Some ''checkbox''\<rparr>"

definition instrumentDescriptionColumn :: "env \<Rightarrow> ColumnOptions" where
  "instrumentDescriptionColumn e =
     \<lparr>Cell = (\<lambda>props. if truthy (cell_value props)
                then expand2react e (l_instrument_descriptions e (cell_value props))
                else Value JNull),
      Header = N_l e ''Description'',
      accessor = Field ''description'',
      className = None,
      col_id = None\<rparr>"

definition defineNameColumn :: "string \<Rightarrow> string option \<Rightarrow> bool option \<Rightarrow> ColumnOptions" where
  "defineNameColumn title order sortable =
     \<lparr>Cell = (\<lambda>props. DescriptiveLink (row_original props)),
      Header = (if orDefault sortable False
                then SortableTableHeader title ''name'' (orDefault order '''')
                else Value (JStr title)),
      accessor = Field ''name'',
      className = None,
      col_id = Some ''name''\<rparr>"

definition defineTypeColumn :: "env \<Rightarrow> string \<Rightarrow> string option \<Rightarrow> bool option \<Rightarrow> ColumnOptions" where
  "defineTypeColumn e typeContext order sortable =
     \<lparr>Cell = (\<lambda>props. if truthy (cell_value props)
                then Value (JStr (lp_attributes e (cell_value props) typeContext))
                else Value JNull),
      Header = (if orDefault sortable False
                then SortableTableHeader (l e ''Type'') ''type'' (orDefault order '''')
                else Value (JStr (l e ''Type''))),
      accessor = Field ''typeName'',
      className = None,
      col_id = Some ''type''\<rparr>"

text \<open>The first of the two declarations of \<^verbatim>\<open>defineTextColumn\<close> (lines 97 to 118).\<close>

definition defineTextColumn_first ::
  "(jsval \<Rightarrow> jsval) \<Rightarrow> string \<Rightarrow> string \<Rightarrow> string option \<Rightarrow> bool option \<Rightarrow> ColumnOptions" where
  "defineTextColumn_first getText columnName title order sortable =
     \<lparr>Cell = (\<lambda>props. Value (getText (row_original props))),
      Header = (if orDefault sortable False
                then SortableTableHeader title columnName (orDefault order '''')
                else Value (JStr title)),
      accessor = Fn (\<lambda>row. coalesce (getText row) (JStr '''')),
      className = None,
      col_id = Some columnName\<rparr>"

definition defineEntityColumn ::
  "(jsval \<Rightarrow> jsval) \<Rightarrow> string \<Rightarrow> string \<Rightarrow> string option \<Rightarrow> bool option \<Rightarrow> ColumnOptions" where
  "defineEntityColumn getEntity columnName title order sortable =
     \<lparr>Cell = (\<lambda>props. let entity = getEntity (row_original props)
                in if truthy entity then DescriptiveLink entity else Value JNull),
      Header = (if orDefault sortable False
                then SortableTableHeader title columnName (orDefault order '''')
                else Value (JStr title)),
      accessor = Fn (\<lambda>row. coalesce (optChain (getEntity row) ''name'') (JStr '''')),
      className = None,
      col_id = Some columnName\<rparr>"

text \<open>The second declaration of \<^verbatim>\<open>defineTextColumn\<close> (lines 148 to 169).\<close>

definition defineTextColumn ::
  "(jsval \<Rightarrow> jsval) \<Rightarrow> string \<Rightarrow> string \<Rightarrow> string option \<Rightarrow> bool option \<Rightarrow> ColumnOptions" where
  "defineTextColumn getText columnName title order sortable =
     \<lparr>Cell = (\<lambda>props. Value (getText (row_original props))),
      Header = (if orDefault sortable False
                then SortableTableHeader title columnName (orDefault order '''')
                else Value (JStr title)),
      accessor = Fn (\<lambda>row. coalesce (getText row) (JStr '''')),
      className = None,
      col_id = Some columnName\<rparr>"

definition defineBeginDateColumn :: "env \<Rightarrow> string option \<Rightarrow> bool option \<Rightarrow> ColumnOptions" where
  "defineBeginDateColumn e order sortable =
     \<lparr>Cell = (\<lambda>props. Value (JStr (formatDate e (cell_value props)))),
      Header = (if orDefault sortable False
                then SortableTableHeader (l e ''Begin'') ''begin_date'' (orDefault order '''')
                else Value (JStr (l e ''Begin''))),
      accessor = Field ''begin_date'',
      className = None,
      col_id = Some ''begin_date''\<rparr>"

definition defineEndDateColumn :: "env \<Rightarrow> string option \<Rightarrow> bool option \<Rightarrow> ColumnOptions" where
  "defineEndDateColumn e order sortable =
     \<lparr>Cell = (\<lambda>props. Value (JStr (formatEndDate e (row_original props)))),
      Header = (if orDefault sortable False
                then SortableTableHeader (l e ''End'') ''end_date'' (orDefault order '''')
                else Value (JStr (l e ''End''))),
      accessor = Field ''end_date'',
      className = None,
      col_id = Some ''end_date''\<rparr>"

definition ratingsColumn :: "env \<Rightarrow> ColumnOptions" where
  "ratingsColumn e =
     \<lparr>Cell = (\<lambda>props. RatingStars (row_original props)),
      Header = N_l e ''Rating'',
      accessor = Field ''rating'',
      className = None,
      col_id = None\<rparr>"

definition seriesOrderingTypeColumn :: "env \<Rightarrow> ColumnOptions" where
  "seriesOrderingTypeColumn e =
     \<lparr>Cell = (\<lambda>props. let orderingType = series_ordering_type e (cell_value props)
                in if truthy orderingType
                   then Value (JStr (lp_attributes e (getProp orderingType ''name'')
                                       ''series_ordering_type''))
                   else Value JNull),
      Header = N_l e ''Ordering Type'',
      accessor = Field ''orderingTypeID'',
      className = None,
      col_id = None\<rparr>"

definition subscriptionColumn :: "env \<Rightarrow> ColumnOptions" where
  "subscriptionColumn e =
     \<lparr>Cell = (\<lambda>props. Value (JStr (yesNo e (cell_value props)))),
      Header = N_l e ''Subscribed'',
      accessor = Field ''subscribed'',
      className = None,
      col_id = None\<rparr>"

text \<open>
  \<^verbatim>\<open>actions.map((actionPair, index) => ...)\<close>: the callback sees each element with its
  index, counted from 0.
\<close>

fun mapIndexFrom :: "nat \<Rightarrow> ('a \<Rightarrow> nat \<Rightarrow> 'b) \<Rightarrow> 'a list \<Rightarrow> 'b list" where
  "mapIndexFrom i f [] = []"
| "mapIndexFrom i f (x # xs) = f x i # mapIndexFrom (Suc i) f xs"

definition mapIndex :: "('a \<Rightarrow> nat \<Rightarrow> 'b) \<Rightarrow> 'a list \<Rightarrow> 'b list" where
  "mapIndex f xs = mapIndexFrom 0 f xs"

text \<open>The key of the fragment that wraps one action.\<close>

definition actionKey :: "string \<times> string \<Rightarrow> nat \<Rightarrow> string" where
  "actionKey actionPair index = snd actionPair @ (if index = 0 then ''-first'' else '''')"

definition actionFragment :: "jsval \<Rightarrow> string \<times> string \<Rightarrow> nat \<Rightarrow> node" where
  "actionFragment original actionPair index =
     Fragment (Some (actionKey actionPair index))
       [if index = 0 then Value JNull else Value (JStr '' | ''),
        EntityLink (fst actionPair) original (snd actionPair)]"

definition defineActionsColumn :: "env \<Rightarrow> (string \<times> string) list \<Rightarrow> ColumnOptions" where
  "defineActionsColumn e actions =
     \<lparr>Cell = (\<lambda>props. Fragment None (mapIndex (actionFragment (row_original props)) actions)),
      Header = Value (JStr (l e ''Actions'')),
      accessor = Field ''id'',
      className = Some ''actions'',
      col_id = Some ''actions''\<rparr>"

subsection \<open>Observing a descriptor\<close>

text \<open>
  Modelled from the spec: a stand-in for the collaborators, for evaluating descriptors at
  concrete rows. Every localisation helper returns its key untranslated, as the
  localisation layer does for a message without a translation; the registry of ordering
  types is empty.
\<close>

definition untranslated :: env where
  "untranslated =
     \<lparr>l = (\<lambda>key. key),
      N_l = (\<lambda>key. Value (JStr key)),
      lp_attributes = (\<lambda>v ctx. case v of JStr s \<Rightarrow> s | _ \<Rightarrow> ''''),
      l_instrument_descriptions = (\<lambda>v. case v of JStr s \<Rightarrow> s | _ \<Rightarrow> ''''),
      expand2react = (\<lambda>s. Value (JStr s)),
      formatDate = (\<lambda>d. ''''),
      formatEndDate = (\<lambda>d. ''''),
      yesNo = (\<lambda>v. if truthy v then ''Yes'' else ''No''),
      series_ordering_type = (\<lambda>v. JUndefined)\<rparr>"

text \<open>The key React reads off a child, and the children of a fragment.\<close>

fun nodeKey :: "node \<Rightarrow> string option" where
  "nodeKey (Fragment k cs) = k"
| "nodeKey n = None"

fun children :: "node \<Rightarrow> node list" where
  "children (Fragment k cs) = cs"
| "children n = []"

definition childKeys :: "node \<Rightarrow> string option list" where
  "childKeys n = map nodeKey (children n)"

text \<open>
  Modelled from the spec: what React displays of a node. A fragment is transparent,
  \<^verbatim>\<open>null\<close>, \<^verbatim>\<open>undefined\<close> and booleans display nothing, every other node
  displays as itself.
\<close>

fun rendered :: "node \<Rightarrow> node list" where
  "rendered (Fragment k cs) = concat (map rendered cs)"
| "rendered (Value v) = (case v of JUndefined \<Rightarrow> [] | JNull \<Rightarrow> [] | JBool b \<Rightarrow> [] | _ \<Rightarrow> [Value v])"
| "rendered n = [n]"

text \<open>
  The specification's wording of the actions cell: the items in order, a separator
  between consecutive items and none before the first.
\<close>

fun joinWith :: "'a \<Rightarrow> 'a list \<Rightarrow> 'a list" where
  "joinWith sep [] = []"
| "joinWith sep [x] = [x]"
| "joinWith sep (x # y # ys) = x # sep # joinWith sep (y # ys)"

section \<open>Properties\<close>

subsection \<open>Text columns\<close>

text \<open>
  C1. The accessor of a text column applies the extraction function to the row; it yields
  that result when it is neither null nor undefined and the empty string when it is, so
  it never yields null or undefined.
\<close>

theorem text_accessor_coalesces:
  "accessor (defineTextColumn getText columnName title order sortable)
     = Fn (\<lambda>row. coalesce (getText row) (JStr ''''))
   \<and> accessorValue (accessor (defineTextColumn getText columnName title order sortable)) row
     = (if getText row = JNull \<or> getText row = JUndefined then JStr '''' else getText row)
   \<and> accessorValue (accessor (defineTextColumn getText columnName title order sortable)) row
       \<noteq> JNull
   \<and> accessorValue (accessor (defineTextColumn getText columnName title order sortable)) row
       \<noteq> JUndefined"
  by (cases "getText row") (simp_all add: defineTextColumn_def coalesce_def)

text \<open>
  C2. The cell of a text column shows the extracted value as it is, also when it is null
  or undefined, and not the value the accessor yields: for an extraction function that
  returns null the cell is null while the accessor is the empty string.
\<close>

theorem text_cell_raw:
  "Cell (defineTextColumn getText columnName title order sortable) props
     = Value (getText (row_original props))
   \<and> renderCell (defineTextColumn getText columnName title order sortable) row
     = Value (getText row)
   \<and> renderCell (defineTextColumn (\<lambda>r. JNull) columnName title order sortable) row
     = Value JNull
   \<and> accessorValue (accessor (defineTextColumn (\<lambda>r. JNull) columnName title order sortable)) row
     = JStr ''''
   \<and> renderCell (defineTextColumn (\<lambda>r. JNull) columnName title order sortable) row
     \<noteq> Value (accessorValue
         (accessor (defineTextColumn (\<lambda>r. JNull) columnName title order sortable)) row)"
  by (simp add: defineTextColumn_def renderCell_def cellProps_def coalesce_def)

text \<open>
  C10. The two declarations of \<^verbatim>\<open>defineTextColumn\<close> build the same descriptor from
  the same arguments: the same accessor, header and cell. (The declared value types,
  \<^verbatim>\<open>StrOrNum\<close> and \<^verbatim>\<open>string\<close>, are annotations with no run-time content.)
\<close>

theorem text_column_declarations_agree:
  "defineTextColumn_first getText columnName title order sortable
     = defineTextColumn getText columnName title order sortable
   \<and> accessor (defineTextColumn_first getText columnName title order sortable)
     = accessor (defineTextColumn getText columnName title order sortable)
   \<and> Header (defineTextColumn_first getText columnName title order sortable)
     = Header (defineTextColumn getText columnName title order sortable)
   \<and> Cell (defineTextColumn_first getText columnName title order sortable) props
     = Cell (defineTextColumn getText columnName title order sortable) props"
  by (simp add: defineTextColumn_first_def defineTextColumn_def)

subsection \<open>Entity columns\<close>

text \<open>
  C5. The accessor of an entity column yields the name of the extracted entity when
  there is an entity and its name is present, and the empty string when the extraction
  yields nothing (null or undefined) or an entity without a name.
\<close>

theorem entity_accessor_name:
  "(\<not> nullish (getEntity row) \<and> \<not> nullish (getProp (getEntity row) ''name'')
      \<longrightarrow> accessorValue (accessor (defineEntityColumn getEntity columnName title order sortable)) row
            = getProp (getEntity row) ''name'')
   \<and> (nullish (getEntity row)
      \<longrightarrow> accessorValue (accessor (defineEntityColumn getEntity columnName title order sortable)) row
            = JStr '''')
   \<and> (nullish (getProp (getEntity row) ''name'')
      \<longrightarrow> accessorValue (accessor (defineEntityColumn getEntity columnName title order sortable)) row
            = JStr '''')"
  by (simp add: defineEntityColumn_def coalesce_def optChain_def)

text \<open>An artist column on a row with a named artist, with no artist, with a nameless one.\<close>

theorem entity_accessor_name_witness:
  "accessorValue (accessor (defineEntityColumn (\<lambda>r. getProp r ''artist'') ''artist'' ''Artist'' None None))
      (JObj [(''artist'', JObj [(''id'', JNum 5), (''name'', JStr ''Nirvana'')])]) = JStr ''Nirvana''
   \<and> accessorValue (accessor (defineEntityColumn (\<lambda>r. getProp r ''artist'') ''artist'' ''Artist'' None None))
      (JObj [(''artist'', JNull)]) = JStr ''''
   \<and> accessorValue (accessor (defineEntityColumn (\<lambda>r. getProp r ''artist'') ''artist'' ''Artist'' None None))
      (JObj [(''artist'', JObj [(''id'', JNum 5)])]) = JStr ''''"
  using entity_accessor_name [where getEntity = "\<lambda>r. getProp r ''artist''" and columnName = "''artist''"
      and title = "''Artist''" and order = None and sortable = None
      and row = "JObj [(''artist'', JObj [(''id'', JNum 5), (''name'', JStr ''Nirvana'')])]"]
    entity_accessor_name [where getEntity = "\<lambda>r. getProp r ''artist''" and columnName = "''artist''"
      and title = "''Artist''" and order = None and sortable = None
      and row = "JObj [(''artist'', JNull)]"]
    entity_accessor_name [where getEntity = "\<lambda>r. getProp r ''artist''" and columnName = "''artist''"
      and title = "''Artist''" and order = None and sortable = None
      and row = "JObj [(''artist'', JObj [(''id'', JNum 5)])]"]
  by simp

subsection \<open>Headers\<close>

text \<open>
  C6. Each of the six factories with a sortable flag and an order token: with the flag
  set, the header is the sortable-header element bound to the field name that is also
  the column's id, with the order token passed (the empty string when omitted); with the
  flag false or omitted, the header is the title itself.
\<close>

theorem sortable_header_toggle:
  "Header (defineNameColumn title (Some ord) (Some True)) = SortableTableHeader title ''name'' ord
   \<and> Header (defineNameColumn title None (Some True)) = SortableTableHeader title ''name'' ''''
   \<and> Header (defineNameColumn title order (Some False)) = Value (JStr title)
   \<and> Header (defineNameColumn title order None) = Value (JStr title)
   \<and> col_id (defineNameColumn title order sortable) = Some ''name''
   \<and> Header (defineTypeColumn e typeContext (Some ord) (Some True))
       = SortableTableHeader (l e ''Type'') ''type'' ord
   \<and> Header (defineTypeColumn e typeContext None (Some True))
       = SortableTableHeader (l e ''Type'') ''type'' ''''
   \<and> Header (defineTypeColumn e typeContext order (Some False)) = Value (JStr (l e ''Type''))
   \<and> Header (defineTypeColumn e typeContext order None) = Value (JStr (l e ''Type''))
   \<and> col_id (defineTypeColumn e typeContext order sortable) = Some ''type''
   \<and> Header (defineTextColumn getText columnName title (Some ord) (Some True))
       = SortableTableHeader title columnName ord
   \<and> Header (defineTextColumn getText columnName title None (Some True))
       = SortableTableHeader title columnName ''''
   \<and> Header (defineTextColumn getText columnName title order (Some False)) = Value (JStr title)
   \<and> Header (defineTextColumn getText columnName title order None) = Value (JStr title)
   \<and> col_id (defineTextColumn getText columnName title order sortable) = Some columnName
   \<and> Header (defineEntityColumn getEntity columnName title (Some ord) (Some True))
       = SortableTableHeader title columnName ord
   \<and> Header (defineEntityColumn getEntity columnName title None (Some True))
       = SortableTableHeader title columnName ''''
   \<and> Header (defineEntityColumn getEntity columnName title order (Some False)) = Value (JStr title)
   \<and> Header (defineEntityColumn getEntity columnName title order None) = Value (JStr title)
   \<and> col_id (defineEntityColumn getEntity columnName title order sortable) = Some columnName
   \<and> Header (defineBeginDateColumn e (Some ord) (Some True))
       = SortableTableHeader (l e ''Begin'') ''begin_date'' ord
   \<and> Header (defineBeginDateColumn e None (Some True))
       = SortableTableHeader (l e ''Begin'') ''begin_date'' ''''
   \<and> Header (defineBeginDateColumn e order (Some False)) = Value (JStr (l e ''Begin''))
   \<and> Header (defineBeginDateColumn e order None) = Value (JStr (l e ''Begin''))
   \<and> col_id (defineBeginDateColumn e order sortable) = Some ''begin_date''
   \<and> Header (defineEndDateColumn e (Some ord) (Some True))
       = SortableTableHeader (l e ''End'') ''end_date'' ord
   \<and> Header (defineEndDateColumn e None (Some True))
       = SortableTableHeader (l e ''End'') ''end_date'' ''''
   \<and> Header (defineEndDateColumn e order (Some False)) = Value (JStr (l e ''End''))
   \<and> Header (defineEndDateColumn e order None) = Value (JStr (l e ''End''))
   \<and> col_id (defineEndDateColumn e order sortable) = Some ''end_date''"
  by (simp add: defineNameColumn_def defineTypeColumn_def defineTextColumn_def
      defineEntityColumn_def defineBeginDateColumn_def defineEndDateColumn_def orDefault_def)

subsection \<open>Type and description cells\<close>

text \<open>
  C7. A row whose \<^verbatim>\<open>typeName\<close> is absent or falsy gets a type cell that is null, and
  a row whose \<^verbatim>\<open>description\<close> is absent or falsy gets a description cell that is
  null: nothing is shown, and no collaborator is called.
\<close>

theorem missing_value_renders_nothing:
  "(\<not> truthy (getProp row ''typeName'')
      \<longrightarrow> renderCell (defineTypeColumn e typeContext order sortable) row = Value JNull)
   \<and> (\<not> truthy (getProp row ''description'')
      \<longrightarrow> renderCell (instrumentDescriptionColumn e) row = Value JNull)
   \<and> (map_of ps ''typeName'' = None
      \<longrightarrow> renderCell (defineTypeColumn e typeContext order sortable) (JObj ps) = Value JNull)
   \<and> (map_of ps ''description'' = None
      \<longrightarrow> renderCell (instrumentDescriptionColumn e) (JObj ps) = Value JNull)
   \<and> (\<not> truthy (cell_value props)
      \<longrightarrow> Cell (defineTypeColumn e typeContext order sortable) props = Value JNull
          \<and> Cell (instrumentDescriptionColumn e) props = Value JNull)"
  by (simp add: renderCell_def cellProps_def defineTypeColumn_def instrumentDescriptionColumn_def)

text \<open>
  Rows with an empty type name, a null description and neither field; a row with a type
  name does get its label.
\<close>

theorem missing_value_renders_nothing_witness:
  "renderCell (defineTypeColumn untranslated ''artist_type'' None None)
      (JObj [(''name'', JStr ''Nirvana''), (''typeName'', JStr '''')]) = Value JNull
   \<and> renderCell (instrumentDescriptionColumn untranslated)
      (JObj [(''name'', JStr ''Piano''), (''description'', JNull)]) = Value JNull
   \<and> renderCell (defineTypeColumn untranslated ''artist_type'' None None)
      (JObj [(''name'', JStr ''Nirvana'')]) = Value JNull
   \<and> renderCell (instrumentDescriptionColumn untranslated)
      (JObj [(''name'', JStr ''Piano'')]) = Value JNull
   \<and> Cell (defineTypeColumn untranslated ''artist_type'' None None)
      \<lparr>cell_value = JUndefined, row_original = JObj []\<rparr> = Value JNull
   \<and> Cell (instrumentDescriptionColumn untranslated)
      \<lparr>cell_value = JUndefined, row_original = JObj []\<rparr> = Value JNull
   \<and> renderCell (defineTypeColumn untranslated ''artist_type'' None None)
      (JObj [(''name'', JStr ''Nirvana''), (''typeName'', JStr ''Group'')]) = Value (JStr ''Group'')"
proof -
  have shown: "renderCell (defineTypeColumn untranslated ''artist_type'' None None)
      (JObj [(''name'', JStr ''Nirvana''), (''typeName'', JStr ''Group'')]) = Value (JStr ''Group'')"
    by (simp add: renderCell_def cellProps_def defineTypeColumn_def untranslated_def)
  show ?thesis
    using missing_value_renders_nothing [where e = untranslated and typeContext = "''artist_type''"
        and order = None and sortable = None
        and row = "JObj [(''name'', JStr ''Nirvana''), (''typeName'', JStr '''')]"
        and ps = "[(''name'', JStr ''Nirvana'')]"
        and props = "\<lparr>cell_value = JUndefined, row_original = JObj []\<rparr>"]
      missing_value_renders_nothing [where e = untranslated and typeContext = "''artist_type''"
        and order = None and sortable = None
        and row = "JObj [(''name'', JStr ''Piano''), (''description'', JNull)]"
        and ps = "[(''name'', JStr ''Piano'')]"
        and props = "\<lparr>cell_value = JUndefined, row_original = JObj []\<rparr>"]
      shown
    by simp
qed

subsection \<open>Checkbox column\<close>

text \<open>
  C8. The accessor of a checkbox column is the row's \<^verbatim>\<open>id\<close> field; the cell is a
  checkbox input whose value is that id and whose form name is the factory's argument,
  whatever the row.
\<close>

theorem checkbox_reads_id:
  "accessor (defineCheckboxColumn name) = Field ''id''
   \<and> accessorValue (accessor (defineCheckboxColumn name)) row = getProp row ''id''
   \<and> Cell (defineCheckboxColumn name) props = Input (Some name) ''checkbox'' (Some (cell_value props))
   \<and> renderCell (defineCheckboxColumn name) row
       = Input (Some name) ''checkbox'' (Some (getProp row ''id''))"
  by (simp add: defineCheckboxColumn_def renderCell_def cellProps_def)

subsection \<open>Actions column\<close>

lemma keys_later:
  "map nodeKey (mapIndexFrom (Suc i) (actionFragment original) rest) = map (\<lambda>p. Some (snd p)) rest"
  by (induction rest arbitrary: i) (simp_all add: actionFragment_def actionKey_def)

lemma fragments_later:
  "mapIndexFrom (Suc i) (actionFragment original) rest
     = map (\<lambda>p. Fragment (Some (snd p))
                   [Value (JStr '' | ''), EntityLink (fst p) original (snd p)]) rest"
  by (induction rest arbitrary: i) (simp_all add: actionFragment_def actionKey_def)

lemma rendered_later:
  "concat (map rendered (map (\<lambda>p. Fragment (Some (snd p))
                   [Value (JStr '' | ''), EntityLink (fst p) original (snd p)]) rest))
   = concat (map (\<lambda>p. [Value (JStr '' | ''), EntityLink (fst p) original (snd p)]) rest)"
  by (induction rest) simp_all

lemma joinWith_Cons:
  "joinWith sep (x # xs) = x # concat (map (\<lambda>y. [sep, y]) xs)"
  by (induction xs arbitrary: x) simp_all
lemma distinct_map_Some: "distinct (map Some xs) = distinct xs"
  by (simp add: distinct_map)

text \<open>
  C3, as stated, fails: two actions after the first that share a path get the same key.
  Here the keys are \<^verbatim>\<open>edit-first\<close>, \<^verbatim>\<open>merge\<close>, \<^verbatim>\<open>merge\<close>.
\<close>

theorem actions_keys_collide:
  "\<not> distinct (childKeys (renderCell
        (defineActionsColumn untranslated
           [(''Edit'', ''edit''), (''Merge'', ''merge''), (''Merge all'', ''merge'')])
        (JObj [(''id'', JNum 7)])))"
  by (simp add: childKeys_def renderCell_def cellProps_def defineActionsColumn_def mapIndex_def
      actionFragment_def actionKey_def)

text \<open>
  C3, amended. The fragment around the first link has the key path followed by
  \<^verbatim>\<open>-first\<close>, the fragment around every later link has its path as key. The keys
  are pairwise distinct exactly when the paths after the first are pairwise distinct and
  none of them is the first path followed by \<^verbatim>\<open>-first\<close>; the first key always
  differs from the key of a later action with the same path.
\<close>

theorem actions_keys:
  "childKeys (renderCell (defineActionsColumn e (a # rest)) row)
     = Some (snd a @ ''-first'') # map (\<lambda>p. Some (snd p)) rest
   \<and> (distinct (childKeys (renderCell (defineActionsColumn e (a # rest)) row))
        \<longleftrightarrow> distinct (map snd rest) \<and> snd a @ ''-first'' \<notin> set (map snd rest))
   \<and> Some (snd a @ ''-first'') \<noteq> Some (snd a)"
proof -
  have keys: "childKeys (renderCell (defineActionsColumn e (a # rest)) row)
     = Some (snd a @ ''-first'') # map Some (map snd rest)"
    by (simp add: childKeys_def renderCell_def cellProps_def defineActionsColumn_def
        mapIndex_def keys_later actionFragment_def actionKey_def)
  have "distinct (Some (snd a @ ''-first'') # map Some (map snd rest))
        \<longleftrightarrow> distinct (map snd rest) \<and> snd a @ ''-first'' \<notin> set (map snd rest)"
    unfolding distinct.simps distinct_map_Some by auto
  with keys show ?thesis by simp
qed

text \<open>
  C4. The actions cell holds one link per pair, in the order of the list; what is
  displayed is the links with \<^verbatim>\<open> | \<close> between consecutive ones and nothing before
  the first. For Edit and Remove: the Edit link, one separator, the Remove link, under
  the keys \<^verbatim>\<open>edit-first\<close> and \<^verbatim>\<open>remove\<close>.
\<close>

theorem actions_render:
  "renderCell (defineActionsColumn e (a # rest)) row
     = Fragment None
         (Fragment (Some (snd a @ ''-first'')) [Value JNull, EntityLink (fst a) row (snd a)]
          # map (\<lambda>p. Fragment (Some (snd p))
                        [Value (JStr '' | ''), EntityLink (fst p) row (snd p)]) rest)
   \<and> rendered (renderCell (defineActionsColumn e actions) row)
     = joinWith (Value (JStr '' | '')) (map (\<lambda>p. EntityLink (fst p) row (snd p)) actions)
   \<and> renderCell (defineActionsColumn e [(''Edit'', ''edit''), (''Remove'', ''remove'')]) row
     = Fragment None
         [Fragment (Some ''edit-first'') [Value JNull, EntityLink ''Edit'' row ''edit''],
          Fragment (Some ''remove'') [Value (JStr '' | ''), EntityLink ''Remove'' row ''remove'']]
   \<and> rendered (renderCell (defineActionsColumn e [(''Edit'', ''edit''), (''Remove'', ''remove'')]) row)
     = [EntityLink ''Edit'' row ''edit'', Value (JStr '' | ''), EntityLink ''Remove'' row ''remove'']
   \<and> childKeys (renderCell (defineActionsColumn e [(''Edit'', ''edit''), (''Remove'', ''remove'')]) row)
     = [Some ''edit-first'', Some ''remove'']"
proof -
  have cell: "renderCell (defineActionsColumn e (b # bs)) row
     = Fragment None
         (Fragment (Some (snd b @ ''-first'')) [Value JNull, EntityLink (fst b) row (snd b)]
          # map (\<lambda>p. Fragment (Some (snd p))
                        [Value (JStr '' | ''), EntityLink (fst p) row (snd p)]) bs)" for b bs
    by (simp add: renderCell_def cellProps_def defineActionsColumn_def mapIndex_def
        fragments_later) (simp add: actionFragment_def actionKey_def)
  have vis: "rendered (renderCell (defineActionsColumn e actions) row)
     = joinWith (Value (JStr '' | '')) (map (\<lambda>p. EntityLink (fst p) row (snd p)) actions)"
  proof (cases actions)
    case Nil
    then show ?thesis
      by (simp add: renderCell_def cellProps_def defineActionsColumn_def mapIndex_def)
  next
    case (Cons b bs)
    then show ?thesis
      by (simp add: cell rendered_later joinWith_Cons map_concat comp_def)
  qed
  show ?thesis
    using cell [of a rest] vis cell [of "(''Edit'', ''edit'')" "[(''Remove'', ''remove'')]"]
    by (simp add: childKeys_def)
qed

end
